theory Spec2Isabelle
  imports Main "HOL-Library.AList"
begin

section \<open>Lowball comparator\<close>

text \<open>
  Both application variants define \<open>compareLowballHands\<close> with the same body: copy both
  arrays, sort each with the comparator \<open>(a, b) => b - a\<close> (descending), then walk the
  index range of the first array and return the difference at the first position where
  the two differ, or \<open>0\<close> when the walk ends.  Reading the second array beyond its end
  yields \<open>undefined\<close>, which differs from every number, and the difference returned is
  then \<open>NaN\<close>: the model returns \<open>None\<close> there.

  Card values are integers held in double-precision numbers.  The model subtracts
  integers exactly.  The subtraction of the code gives the same number whenever both
  values have magnitude at most \<open>2 ^ 52\<close> (card values are 2 to 14, benchmark digits 0 to
  9); beyond that range it rounds, and only the sign of its result is that of the model.
\<close>

definition sortDesc :: "int list \<Rightarrow> int list" where
  "sortDesc xs = rev (sort xs)"

fun compareLoop :: "int list \<Rightarrow> int list \<Rightarrow> int option" where
  "compareLoop [] ys = Some 0"
| "compareLoop (x # xs) [] = None"
| "compareLoop (x # xs) (y # ys) = (if x \<noteq> y then Some (x - y) else compareLoop xs ys)"

definition compareLowballHands :: "int list \<Rightarrow> int list \<Rightarrow> int option" where
  "compareLowballHands hand1 hand2 = compareLoop (sortDesc hand1) (sortDesc hand2)"

text \<open>The test \<open>compareLowballHands(..) <= 0\<close> of the callers; \<open>NaN <= 0\<close> is false.\<close>

definition atMostZero :: "int option \<Rightarrow> bool" where
  "atMostZero r = (case r of None \<Rightarrow> False | Some d \<Rightarrow> d \<le> 0)"


section \<open>Cards, hands and shape detection\<close>

text \<open>
  A card carries its rank and suit symbols, its display text and the integer value used
  by the evaluation (2 to 9 as themselves, T = 10, J = 11, Q = 12, K = 13, A = 14).  The
  classifiers return a record; of its fields the model keeps the decision, the action and
  the category label, and leaves out the explanatory sentences shown to the player.
\<close>

record HandCard =
  rank :: string
  suit :: string
  display :: string
  card_value :: int

record Evaluation =
  isPlayable :: bool
  correctAction :: string
  category :: string

text \<open>Decimal rendering of numbers inside template strings and \<open>join\<close>.\<close>

definition digitChar :: "nat \<Rightarrow> char" where
  "digitChar d = ''0123456789'' ! (d mod 10)"

fun showNat :: "nat \<Rightarrow> string" where
  "showNat n = (if n < 10 then [digitChar n] else showNat (n div 10) @ [digitChar (n mod 10)])"

declare showNat.simps [simp del]

definition showInt :: "int \<Rightarrow> string" where
  "showInt i = (if i < 0 then CHR ''-'' # showNat (nat (- i)) else showNat (nat i))"

definition joinValues :: "string \<Rightarrow> int list \<Rightarrow> string" where
  "joinValues sep xs = (case xs of [] \<Rightarrow> [] | y # ys \<Rightarrow> showInt y @ concat (map (\<lambda>v. sep @ showInt v) ys))"

text \<open>\<open>Array.from(new Set(xs))\<close> keeps the first occurrence of every element, in order.\<close>

definition arrayFromSet :: "'a list \<Rightarrow> 'a list" where
  "arrayFromSet xs = rev (remdups (rev xs))"

definition sortedValues :: "HandCard list \<Rightarrow> int list" where
  "sortedValues hand = sort (map card_value hand)"

text \<open>
  \<open>valueCounts\<close> is the object built by \<open>reduce\<close>: every value of the hand is a key, mapped
  to its number of occurrences.  A key that was never written reads as \<open>undefined\<close>.
\<close>

definition countValue :: "int \<Rightarrow> (int \<times> nat) list \<Rightarrow> (int \<times> nat) list" where
  "countValue v acc = AList.update v ((case map_of acc v of None \<Rightarrow> 0 | Some c \<Rightarrow> c) + 1) acc"

definition valueCounts :: "int list \<Rightarrow> (int \<times> nat) list" where
  "valueCounts vals = fold countValue vals []"

definition hasPair :: "int list \<Rightarrow> bool" where
  "hasPair vals = list_ex (\<lambda>c. 1 < c) (map snd (valueCounts vals))"

definition hasFlush :: "string list \<Rightarrow> bool" where
  "hasFlush suits = (length (arrayFromSet suits) = 1)"

fun isSliceStraight :: "int list \<Rightarrow> bool" where
  "isSliceStraight (x # y # rest) = (if y \<noteq> x + 1 then False else isSliceStraight (y # rest))"
| "isSliceStraight rest = True"

definition isStraight :: "int list \<Rightarrow> bool" where
  "isStraight vals =
     (if length vals < 5 then False
      else let sorted = sort (arrayFromSet vals) in
        if length sorted < 5 then False
        else list_ex (\<lambda>i. isSliceStraight (take 5 (drop i sorted))) [0 ..< length sorted - 5 + 1])"

definition hasWheel :: "int list \<Rightarrow> bool" where
  "hasWheel vals = (joinValues '','' vals = ''2,3,4,5,14'')"

definition uniqueValues :: "int list \<Rightarrow> int list" where
  "uniqueValues vals = sort (arrayFromSet vals)"

text \<open>Reading an array at an index: \<open>None\<close> is \<open>undefined\<close>.\<close>

definition at :: "'a list \<Rightarrow> nat \<Rightarrow> 'a option" where
  "at xs i = (if i < length xs then Some (xs ! i) else None)"

text \<open>\<open>Math.max(...xs)\<close>: \<open>None\<close> is the \<open>-Infinity\<close> of an empty argument list.\<close>

definition mathMax :: "int list \<Rightarrow> int option" where
  "mathMax xs = (case xs of [] \<Rightarrow> None | y # ys \<Rightarrow> Some (fold max ys y))"

definition fourBestCards :: "int list \<Rightarrow> int list option" where
  "fourBestCards uniq =
     (if length uniq = 4 then Some uniq
      else if length uniq = 5 then Some (take 4 uniq)
      else None)"

definition threeCardDraws :: "int list \<Rightarrow> int list list" where
  "threeCardDraws uniq =
     (if 3 \<le> length uniq then
        (let otherCards = filter (\<lambda>v. v \<noteq> 2) uniq in
         if 2 \<le> length otherCards then [[2, otherCards ! 0, otherCards ! 1]] else [])
      else [])"

section \<open>Single-position classifier\<close>

definition raise :: "string \<Rightarrow> Evaluation" where
  "raise cat = \<lparr>isPlayable = True, correctAction = ''raise'', category = cat\<rparr>"

definition fold_hand :: "string \<Rightarrow> Evaluation" where
  "fold_hand cat = \<lparr>isPlayable = False, correctAction = ''fold'', category = cat\<rparr>"

definition patCheck :: "HandCard list \<Rightarrow> Evaluation option" where
  "patCheck hand =
     (let vals = sortedValues hand in
      if \<not> hasPair vals \<and> \<not> hasFlush (map suit hand) \<and> \<not> isStraight vals \<and> \<not> hasWheel vals then
        (case at vals 4 of
           None \<Rightarrow> None
         | Some highCard \<Rightarrow>
             if highCard \<le> 8 then Some (raise (''Pat '' @ showInt highCard @ ''-high'')) else None)
      else None)"

definition trapCheck :: "int list \<Rightarrow> Evaluation option" where
  "trapCheck uniq =
     (if 4 \<le> length uniq \<and> joinValues '','' (take 4 uniq) = ''4,5,6,7''
      then Some (fold_hand ''x7654 Trap Hand'') else None)"

definition draw1Check :: "int list \<Rightarrow> Evaluation option" where
  "draw1Check uniq =
     (case fourBestCards uniq of
        None \<Rightarrow> None
      | Some fb \<Rightarrow>
          if \<not> isStraight fb \<and> atMostZero (compareLowballHands fb [8, 6, 5, 4])
          then Some (raise (''Draw 1 ('' @ joinValues [] fb @ '')'')) else None)"

definition has632Pattern :: "int list \<Rightarrow> int list \<Rightarrow> bool" where
  "has632Pattern vals uniq =
     (length uniq = 5 \<and> 6 \<in> set vals \<and> 3 \<in> set vals \<and> 2 \<in> set vals
      \<and> (case mathMax vals of None \<Rightarrow> False | Some m \<Rightarrow> 8 < m))"

definition has762Pattern :: "int list \<Rightarrow> int list \<Rightarrow> bool" where
  "has762Pattern vals uniq =
     (length uniq = 5 \<and> 7 \<in> set vals \<and> 6 \<in> set vals \<and> 2 \<in> set vals
      \<and> (case mathMax vals of None \<Rightarrow> False | Some m \<Rightarrow> 8 < m))"

definition specialCheck :: "int list \<Rightarrow> int list \<Rightarrow> Evaluation option" where
  "specialCheck vals uniq =
     (if has632Pattern vals uniq \<or> has762Pattern vals uniq then
        (if (case map_of (valueCounts vals) 2 of None \<Rightarrow> False | Some c \<Rightarrow> 2 \<le> c)
         then Some (raise ''Draw 2 (Special Blocker)'')
         else Some (fold_hand ''Weak Draw 2''))
      else None)"

definition benchmarks :: "(string \<times> int list) list" where
  "benchmarks = [(''542'', [5, 4, 2]), (''752'', [7, 5, 2]), (''842'', [8, 4, 2])]"

fun draw2Loop :: "int list list \<Rightarrow> Evaluation option" where
  "draw2Loop [] = None"
| "draw2Loop (best3With2 # others) =
     (case find (\<lambda>(name, benchmark). atMostZero (compareLowballHands best3With2 benchmark)) benchmarks of
        Some (name, benchmark) \<Rightarrow> Some (raise (''Draw 2 ('' @ name @ ''+)''))
      | None \<Rightarrow> draw2Loop others)"

definition draw2Check :: "int list \<Rightarrow> int list \<Rightarrow> Evaluation option" where
  "draw2Check vals uniq = (if 2 \<in> set vals then draw2Loop (threeCardDraws uniq) else None)"

definition countOrZero :: "(int \<times> nat) list \<Rightarrow> int \<Rightarrow> nat" where
  "countOrZero counts v = (case map_of counts v of None \<Rightarrow> 0 | Some c \<Rightarrow> c)"

definition draw3Check :: "int list \<Rightarrow> Evaluation option" where
  "draw3Check vals =
     (let twoCount = countOrZero (valueCounts vals) 2;
          threeCount = countOrZero (valueCounts vals) 3 in
      if 2 \<le> twoCount \<and> 2 \<le> threeCount then Some (raise ''Draw 3 (3322x Blocker)'')
      else if 3 \<le> twoCount \<and> (3 \<in> set vals \<or> 4 \<in> set vals \<or> 7 \<in> set vals) then
        (case find (\<lambda>v. v = 3 \<or> v = 4 \<or> v = 7) vals of
           None \<Rightarrow> Some (raise ''Draw 3 (undefined222x Blocker)'')
         | Some kicker \<Rightarrow> Some (raise (''Draw 3 ('' @ showInt kicker @ ''222x Blocker)'')))
      else None)"

definition evaluateUTGHand :: "HandCard list \<Rightarrow> Evaluation" where
  "evaluateUTGHand hand =
     (let vals = sortedValues hand; uniq = uniqueValues vals in
      case patCheck hand of Some r \<Rightarrow> r | None \<Rightarrow>
      (case trapCheck uniq of Some r \<Rightarrow> r | None \<Rightarrow>
      (case draw1Check uniq of Some r \<Rightarrow> r | None \<Rightarrow>
      (case specialCheck vals uniq of Some r \<Rightarrow> r | None \<Rightarrow>
      (case draw2Check vals uniq of Some r \<Rightarrow> r | None \<Rightarrow>
      (case draw3Check vals of Some r \<Rightarrow> r | None \<Rightarrow> fold_hand ''Fold''))))))"

section \<open>Range notation\<close>

datatype LearningPosition = UTG | HJ | CO | BTN | SB | BB

text \<open>The two lists of a range are the fields \<^verbatim>\<open>includes\<close> and \<^verbatim>\<open>excludes\<close> of the source.\<close>

record HandRange =
  includesOf :: "string list"
  excludesOf :: "string list"

record PositionStrategy =
  position :: LearningPosition
  patHands :: HandRange
  draw1Hands :: HandRange
  draw2Hands :: HandRange
  draw3Hands :: HandRange
  draw4Hands :: HandRange
  inheritsFrom :: "LearningPosition option"

definition isDigit :: "char \<Rightarrow> bool" where
  "isDigit c = (c \<in> set ''0123456789'')"

text \<open>\<open>Number.parseInt\<close> and \<open>Number\<close> on a one-character string; \<open>None\<close> is \<open>NaN\<close>.\<close>

definition parseDigit :: "char \<Rightarrow> int option" where
  "parseDigit c = map_of (zip ''0123456789'' [0, 1, 2, 3, 4, 5, 6, 7, 8, 9]) c"

definition parseIntCharAt :: "string \<Rightarrow> nat \<Rightarrow> int option" where
  "parseIntCharAt s i = (case at s i of None \<Rightarrow> None | Some c \<Rightarrow> parseDigit c)"

text \<open>The three regular expressions: \<open>^\d+s\+$\<close>, and \<open>^\d{k}\+$\<close> for \<open>k\<close> = 4 and 3.\<close>

definition matchesDigitsSPlus :: "string \<Rightarrow> bool" where
  "matchesDigitsSPlus s =
     (3 \<le> length s \<and> list_all isDigit (take (length s - 2) s) \<and> drop (length s - 2) s = ''s+'')"

definition matchesDigitsPlus :: "nat \<Rightarrow> string \<Rightarrow> bool" where
  "matchesDigitsPlus k s = (length s = k + 1 \<and> list_all isDigit (take k s) \<and> drop k s = ''+'')"

definition includesText :: "string \<Rightarrow> string \<Rightarrow> bool" where
  "includesText s part = list_ex (\<lambda>i. take (length part) (drop i s) = part) [0 ..< length s + 1]"

definition benchmarkOf :: "string \<Rightarrow> int list option" where
  "benchmarkOf s = map_option sort (those (map parseDigit (take (length s - 1) s)))"

definition interpretBetterHand :: "string \<Rightarrow> int list \<Rightarrow> bool" where
  "interpretBetterHand pattern testHand =
     (if matchesDigitsSPlus pattern then
        (case parseIntCharAt pattern 0 of
           None \<Rightarrow> False
         | Some threshold \<Rightarrow>
             (case mathMax testHand of None \<Rightarrow> True | Some highCard \<Rightarrow> highCard \<le> threshold))
      else if matchesDigitsPlus 4 pattern then
        (case benchmarkOf pattern of
           None \<Rightarrow> False
         | Some benchmark \<Rightarrow> atMostZero (compareLowballHands testHand benchmark))
      else if matchesDigitsPlus 3 pattern then
        (case benchmarkOf pattern of
           None \<Rightarrow> False
         | Some benchmark \<Rightarrow> atMostZero (compareLowballHands testHand benchmark))
      else if matchesDigitsPlus 4 pattern \<and> includesText pattern ''22'' then
        (let basePattern = take (length pattern - 3) pattern in
         case (parseIntCharAt basePattern 0, parseIntCharAt basePattern 1, parseIntCharAt pattern 2) of
           (Some b0, Some b1, Some pairCard) \<Rightarrow>
             b0 \<in> set testHand \<and> b1 \<in> set testHand \<and> 2 \<le> length (filter (\<lambda>x. x = pairCard) testHand)
         | _ \<Rightarrow> False)
      else False)"

section \<open>Position strategies and their resolution\<close>

definition positionStrategies :: "PositionStrategy list" where
  "positionStrategies =
   [\<lparr>position = UTG,
      patHands = \<lparr>includesOf = [''8s+''], excludesOf = []\<rparr>,
      draw1Hands = \<lparr>includesOf = [''8654+''], excludesOf = [''7654'']\<rparr>,
      draw2Hands = \<lparr>includesOf = [''542+'', ''752+'', ''842+'', ''6322+'', ''7622+''], excludesOf = []\<rparr>,
      draw3Hands = \<lparr>includesOf = [''3222'', ''3322'', ''3332'', ''4222'', ''7222''], excludesOf = []\<rparr>,
      draw4Hands = \<lparr>includesOf = [], excludesOf = []\<rparr>,
      inheritsFrom = None\<rparr>,
    \<lparr>position = HJ,
      patHands = \<lparr>includesOf = [], excludesOf = []\<rparr>,
      draw1Hands = \<lparr>includesOf = [''8753'', ''8754''], excludesOf = []\<rparr>,
      draw2Hands = \<lparr>includesOf = [''762'', ''852'', ''753'', ''6322'', ''8722''], excludesOf = []\<rparr>,
      draw3Hands = \<lparr>includesOf = [''3222'', ''3322'', ''4422'', ''5222'', ''7722''], excludesOf = []\<rparr>,
      draw4Hands = \<lparr>includesOf = [], excludesOf = []\<rparr>,
      inheritsFrom = Some UTG\<rparr>,
    \<lparr>position = CO,
      patHands = \<lparr>includesOf = [''96543'', ''97654''], excludesOf = []\<rparr>,
      draw1Hands = \<lparr>includesOf = [], excludesOf = []\<rparr>,
      draw2Hands = \<lparr>includesOf = [''632'', ''754'', ''854'', ''872''], excludesOf = []\<rparr>,
      draw3Hands = \<lparr>includesOf = [''32'', ''42'', ''72'', ''522''], excludesOf = []\<rparr>,
      draw4Hands = \<lparr>includesOf = [], excludesOf = []\<rparr>,
      inheritsFrom = Some HJ\<rparr>,
    \<lparr>position = BTN,
      patHands = \<lparr>includesOf = [''T9875'', ''T8765'', ''T7654'', ''T6543''], excludesOf = []\<rparr>,
      draw1Hands = \<lparr>includesOf = [''all''], excludesOf = []\<rparr>,
      draw2Hands = \<lparr>includesOf = [''all''], excludesOf = [''654'', ''765'', ''876'']\<rparr>,
      draw3Hands = \<lparr>includesOf = [''52'', ''622'', ''822''], excludesOf = []\<rparr>,
      draw4Hands = \<lparr>includesOf = [''22''], excludesOf = []\<rparr>,
      inheritsFrom = Some CO\<rparr>,
    \<lparr>position = SB,
      patHands = \<lparr>includesOf = [], excludesOf = []\<rparr>,
      draw1Hands = \<lparr>includesOf = [], excludesOf = []\<rparr>,
      draw2Hands = \<lparr>includesOf = [''limp/raise strategy''], excludesOf = []\<rparr>,
      draw3Hands = \<lparr>includesOf = [''limp/raise strategy''], excludesOf = []\<rparr>,
      draw4Hands = \<lparr>includesOf = [''limp 2'', ''33-55''], excludesOf = []\<rparr>,
      inheritsFrom = Some BTN\<rparr>,
    \<lparr>position = BB,
      patHands = \<lparr>includesOf = [], excludesOf = []\<rparr>,
      draw1Hands = \<lparr>includesOf = [], excludesOf = []\<rparr>,
      draw2Hands = \<lparr>includesOf = [''vs SB limp: any d2''], excludesOf = []\<rparr>,
      draw3Hands = \<lparr>includesOf = [''vs SB limp: 63+''], excludesOf = []\<rparr>,
      draw4Hands = \<lparr>includesOf = [], excludesOf = []\<rparr>,
      inheritsFrom = Some SB\<rparr>]"

text \<open>
  On a value that already has the two lists, \<open>convertLegacyHandRange\<close> rebuilds the
  range from them; strategies are typed, so the legacy branches are not entered.
\<close>

definition convertLegacyHandRange :: "HandRange \<Rightarrow> HandRange" where
  "convertLegacyHandRange legacyData = \<lparr>includesOf = includesOf legacyData, excludesOf = excludesOf legacyData\<rparr>"

definition mergeRange :: "HandRange \<Rightarrow> HandRange \<Rightarrow> HandRange" where
  "mergeRange parent current =
     \<lparr>includesOf = includesOf parent @ includesOf current, excludesOf = excludesOf parent @ excludesOf current\<rparr>"

datatype error = TypeError | RangeError

text \<open>
  What a call of \<open>getFullStrategy\<close> produces: a strategy, the \<open>undefined\<close> read from
  \<open>positionStrategies[0]\<close> of an empty list, or an exception: the \<open>TypeError\<close> raised by
  reading a field of \<open>undefined\<close>, or the \<open>RangeError\<close> raised when the call stack is
  exhausted.
\<close>

datatype resolution = Resolved PositionStrategy | Undefined | Threw error

text \<open>
  \<open>getFullStrategy\<close> calls itself on \<open>inheritsFrom\<close> with no record of the positions it
  has visited, and the call is not a tail call: every step along the chain holds a frame
  of the call stack.  The first argument is the number of nested calls the stack still has
  room for.  A call made when no room is left raises \<open>RangeError\<close>, and nothing between
  that call and the caller of the outermost one catches it.
\<close>

definition lookupStrategy :: "PositionStrategy list \<Rightarrow> LearningPosition \<Rightarrow> PositionStrategy option" where
  "lookupStrategy strategies pos = find (\<lambda>s. position s = pos) strategies"

fun getFullStrategy :: "nat \<Rightarrow> PositionStrategy list \<Rightarrow> LearningPosition \<Rightarrow> resolution" where
  "getFullStrategy 0 strategies pos = Threw RangeError"
| "getFullStrategy (Suc n) strategies pos =
     (case lookupStrategy strategies pos of
        None \<Rightarrow> (case strategies of [] \<Rightarrow> Undefined | first # _ \<Rightarrow> Resolved first)
      | Some strategy \<Rightarrow>
          (case inheritsFrom strategy of
             None \<Rightarrow>
               Resolved (strategy
                 \<lparr>patHands := convertLegacyHandRange (patHands strategy),
                  draw1Hands := convertLegacyHandRange (draw1Hands strategy),
                  draw2Hands := convertLegacyHandRange (draw2Hands strategy),
                  draw3Hands := convertLegacyHandRange (draw3Hands strategy),
                  draw4Hands := convertLegacyHandRange (draw4Hands strategy)\<rparr>)
           | Some parent \<Rightarrow>
               (case getFullStrategy n strategies parent of
                  Threw e \<Rightarrow> Threw e
                | Undefined \<Rightarrow> Threw TypeError
                | Resolved parentStrategy \<Rightarrow>
                    Resolved (strategy
                      \<lparr>patHands := mergeRange (patHands parentStrategy) (convertLegacyHandRange (patHands strategy)),
                       draw1Hands := mergeRange (draw1Hands parentStrategy) (convertLegacyHandRange (draw1Hands strategy)),
                       draw2Hands := mergeRange (draw2Hands parentStrategy) (convertLegacyHandRange (draw2Hands strategy)),
                       draw3Hands := mergeRange (draw3Hands parentStrategy) (convertLegacyHandRange (draw3Hands strategy)),
                       draw4Hands := mergeRange (draw4Hands parentStrategy) (convertLegacyHandRange (draw4Hands strategy))\<rparr>))))"

section \<open>Inheritance chains\<close>








section \<open>Multi-position classifier\<close>

definition patEvaluation :: "PositionStrategy \<Rightarrow> HandCard list \<Rightarrow> Evaluation option" where
  "patEvaluation strategy hand =
     (let vals = sortedValues hand in
      if \<not> hasPair vals \<and> \<not> hasFlush (map suit hand) \<and> \<not> isStraight vals \<and> \<not> hasWheel vals then
        (case find (\<lambda>pattern. interpretBetterHand pattern vals) (includesOf (patHands strategy)) of
           None \<Rightarrow> None
         | Some pattern \<Rightarrow>
             Some (raise (''Pat '' @ (case at vals 4 of None \<Rightarrow> ''undefined'' | Some highCard \<Rightarrow> showInt highCard)
                          @ ''-high'')))
      else None)"

text \<open>
  The exclusion test of the Draw 1 rule: the draw is listed among the excludes, or the
  text \<open>7654\<close> is, and the draw reads \<open>4567\<close>.
\<close>

definition draw1Excluded :: "string list \<Rightarrow> string \<Rightarrow> bool" where
  "draw1Excluded excluded handString =
     ((handString \<in> set excluded \<or> ''7654'' \<in> set excluded) \<and> handString = ''4567'')"

definition draw1Evaluation :: "PositionStrategy \<Rightarrow> int list \<Rightarrow> Evaluation option" where
  "draw1Evaluation strategy uniq =
     (case fourBestCards uniq of
        None \<Rightarrow> None
      | Some fb \<Rightarrow>
          if isStraight fb then None
          else
            (let draw1Strategy = draw1Hands strategy; handString = joinValues [] fb in
             if draw1Excluded (excludesOf draw1Strategy) handString
             then Some (fold_hand ''Draw 1 Excluded (7654)'')
             else
               (case find (\<lambda>pattern. pattern = ''all'' \<or> interpretBetterHand pattern fb) (includesOf draw1Strategy) of
                  Some pattern \<Rightarrow> Some (raise (''Draw 1 ('' @ handString @ '')''))
                | None \<Rightarrow>
                    if handString \<in> set (includesOf draw1Strategy)
                    then Some (raise (''Draw 1 ('' @ handString @ '')'')) else None)))"

fun draw2Patterns :: "string list \<Rightarrow> int list list \<Rightarrow> Evaluation option" where
  "draw2Patterns patterns [] = None"
| "draw2Patterns patterns (best3With2 # others) =
     (case find (\<lambda>pattern. interpretBetterHand pattern best3With2) patterns of
        Some pattern \<Rightarrow> Some (raise (''Draw 2 ('' @ joinValues [] best3With2 @ '')''))
      | None \<Rightarrow> draw2Patterns patterns others)"

definition draw2Evaluation :: "PositionStrategy \<Rightarrow> int list \<Rightarrow> int list \<Rightarrow> Evaluation option" where
  "draw2Evaluation strategy vals uniq =
     (if 2 \<in> set vals then draw2Patterns (includesOf (draw2Hands strategy)) (threeCardDraws uniq) else None)"

definition classify :: "PositionStrategy \<Rightarrow> HandCard list \<Rightarrow> Evaluation" where
  "classify strategy hand =
     (let vals = sortedValues hand; uniq = uniqueValues vals in
      case patEvaluation strategy hand of Some r \<Rightarrow> r | None \<Rightarrow>
      (case draw1Evaluation strategy uniq of Some r \<Rightarrow> r | None \<Rightarrow>
      (case draw2Evaluation strategy vals uniq of Some r \<Rightarrow> r | None \<Rightarrow> fold_hand ''Fold'')))"

text \<open>
  \<open>evaluateHandForPosition\<close> resolves the strategy of the position first and then runs
  the rules above on it.  Every path of the function reads a field of the resolved
  strategy or ends in \<open>getMinimumRaiseExample\<close>, which resolves the same position again
  and reads one, so an \<open>undefined\<close> strategy always ends in an exception.  An exception
  raised by the resolution leaves the function uncaught.  The first argument is the room
  the call stack has for the calls of \<open>getFullStrategy\<close>.
\<close>

definition evaluateHandForPosition ::
  "nat \<Rightarrow> PositionStrategy list \<Rightarrow> HandCard list \<Rightarrow> LearningPosition \<Rightarrow> error + Evaluation" where
  "evaluateHandForPosition n strategies hand pos =
     (case getFullStrategy n strategies pos of
        Threw e \<Rightarrow> Inl e
      | Undefined \<Rightarrow> Inl TypeError
      | Resolved strategy \<Rightarrow> Inr (classify strategy hand))"

section \<open>Sample hands\<close>

text \<open>
  A dealt card shows its rank followed by its suit.  The suit symbols of the source are
  written here by their names; the classifiers only compare suits for equality.
\<close>

definition dealt :: "string \<Rightarrow> string \<Rightarrow> int \<Rightarrow> HandCard" where
  "dealt r s v = \<lparr>rank = r, suit = s, display = r @ s, card_value = v\<rparr>"

definition hand_96322 :: "HandCard list" where
  "hand_96322 = [dealt ''9'' ''spade'' 9, dealt ''6'' ''heart'' 6, dealt ''3'' ''diamond'' 3,
                 dealt ''2'' ''club'' 2, dealt ''2'' ''spade'' 2]"

definition hand_T9922 :: "HandCard list" where
  "hand_T9922 = [dealt ''T'' ''diamond'' 10, dealt ''9'' ''spade'' 9, dealt ''9'' ''heart'' 9,
                 dealt ''2'' ''club'' 2, dealt ''2'' ''spade'' 2]"


definition hand_A5432 :: "HandCard list" where
  "hand_A5432 = [dealt ''A'' ''spade'' 14, dealt ''5'' ''heart'' 5, dealt ''4'' ''diamond'' 4,
                 dealt ''3'' ''club'' 3, dealt ''2'' ''spade'' 2]"

definition hand_86532 :: "HandCard list" where
  "hand_86532 = [dealt ''8'' ''spade'' 8, dealt ''6'' ''heart'' 6, dealt ''5'' ''diamond'' 5,
                 dealt ''3'' ''club'' 3, dealt ''2'' ''spade'' 2]"

section \<open>Properties of the comparator\<close>

lemma length_sortDesc: "length (sortDesc xs) = length xs"
  by (simp add: sortDesc_def)

lemma compareLoop_defined:
  "length xs = length ys \<Longrightarrow> \<exists>r. compareLoop xs ys = Some r"
  by (induction xs ys rule: list_induct2) simp_all

lemma compareLoop_flip:
  "length xs = length ys \<Longrightarrow> compareLoop xs ys = Some r \<Longrightarrow> compareLoop ys xs = Some (- r)"
  by (induction xs ys rule: list_induct2) (auto split: if_splits)


lemma compareLoop_trans:
  "length xs = length ys \<Longrightarrow> length ys = length zs \<Longrightarrow>
   atMostZero (compareLoop xs ys) \<Longrightarrow> atMostZero (compareLoop ys zs) \<Longrightarrow>
   atMostZero (compareLoop xs zs)"
  by (induction xs ys zs rule: list_induct3) (auto simp: atMostZero_def split: if_splits)


text \<open>
  C2.  For lists of equal length the comparator returns a number, which is negative, zero
  or positive and nothing else; swapping the arguments negates the sign of the result; and
  the relation "compares at most zero" is transitive.
\<close>

theorem compareLowballHands_total_order:
  assumes "length A = length B" and "length B = length C"
  shows "\<exists>r s. compareLowballHands A B = Some r \<and> compareLowballHands B A = Some s
           \<and> ((r < 0 \<and> r \<noteq> 0 \<and> \<not> 0 < r) \<or> (\<not> r < 0 \<and> r = 0 \<and> \<not> 0 < r)
               \<or> (\<not> r < 0 \<and> r \<noteq> 0 \<and> 0 < r))
           \<and> sgn r = - sgn s
           \<and> (atMostZero (compareLowballHands A B) \<longrightarrow> atMostZero (compareLowballHands B C)
               \<longrightarrow> atMostZero (compareLowballHands A C))"
proof -
  have len: "length (sortDesc A) = length (sortDesc B)" "length (sortDesc B) = length (sortDesc C)"
    using assms by (simp_all add: length_sortDesc)
  obtain r where "compareLoop (sortDesc A) (sortDesc B) = Some r"
    using compareLoop_defined [OF len(1)] by blast
  then have r: "compareLowballHands A B = Some r"
    and s: "compareLowballHands B A = Some (- r)"
    using compareLoop_flip [OF len(1)] by (simp_all add: compareLowballHands_def)
  have tr: "atMostZero (compareLowballHands A B) \<longrightarrow> atMostZero (compareLowballHands B C)
      \<longrightarrow> atMostZero (compareLowballHands A C)"
    unfolding compareLowballHands_def using compareLoop_trans [OF len] by blast
  have tri: "(r < 0 \<and> r \<noteq> 0 \<and> \<not> 0 < r) \<or> (\<not> r < 0 \<and> r = 0 \<and> \<not> 0 < r)
      \<or> (\<not> r < 0 \<and> r \<noteq> 0 \<and> 0 < r)"
    by arith
  have sg: "sgn r = - sgn (- r)" by simp
  from r s tri sg tr show ?thesis by blast
qed

theorem compareLowballHands_total_order_witness:
  "compareLowballHands [2, 3, 6] [5, 4, 2] = Some 1
   \<and> compareLowballHands [5, 4, 2] [2, 3, 6] = Some (- 1)
   \<and> atMostZero (compareLowballHands [2, 3, 4] [5, 4, 2])
   \<and> atMostZero (compareLowballHands [5, 4, 2] [7, 5, 2])
   \<and> atMostZero (compareLowballHands [2, 3, 4] [7, 5, 2])"
proof -
  have "length [2, 3, 6 :: int] = length [5, 4, 2 :: int]"
    and "length [5, 4, 2 :: int] = length [7, 5, 2 :: int]"
    and "length [2, 3, 4 :: int] = length [5, 4, 2 :: int]"
    by simp_all
  then show ?thesis
    using compareLowballHands_total_order [of "[2, 3, 4]" "[5, 4, 2]" "[7, 5, 2]"]
    by (simp add: compareLowballHands_def sortDesc_def atMostZero_def)
qed




section \<open>Properties of the range notation\<close>

text \<open>
  C5 at a concrete input.  The pattern \<open>6322+\<close> is four digits and a plus sign, so the
  four-digit benchmark branch answers for it and the branch with the pair requirement,
  written after it, is never entered.  The candidate \<open>[2, 3, 4]\<close> holds no 6 and a single
  2, and is reported as a match.
\<close>

theorem interpretBetterHand_blocker_pair_unchecked:
  "interpretBetterHand ''6322+'' [2, 3, 4] = True
   \<and> 6 \<notin> set [2, 3, 4 :: int] \<and> length (filter (\<lambda>x. x = 2) [2, 3, 4 :: int]) < 2"
  by (simp add: interpretBetterHand_def matchesDigitsSPlus_def matchesDigitsPlus_def isDigit_def
      benchmarkOf_def parseDigit_def compareLowballHands_def sortDesc_def atMostZero_def)

text \<open>
  C6 at a concrete input.  The text \<open>all\<close> is none of the notations the interpreter
  recognises, so the interpreter answers \<open>false\<close> for it.  The Draw 1 loop tests
  \<open>pattern === "all"\<close> itself before it calls the interpreter; the Draw 2 loop does not.
  On the button the resolved Draw 2 list holds \<open>all\<close>, and the hand T-9-9-2-2, whose
  three-card draw is \<open>[2, 9, 10]\<close>, is folded.
\<close>

theorem draw2_all_pattern_not_universal:
  "interpretBetterHand ''all'' [2, 9, 10] = False
   \<and> threeCardDraws (uniqueValues (sortedValues hand_T9922)) = [[2, 9, 10]]
   \<and> (case getFullStrategy 6 positionStrategies BTN of
         Resolved s \<Rightarrow> ''all'' \<in> set (includesOf (draw2Hands s)) | _ \<Rightarrow> False)
   \<and> evaluateHandForPosition 6 positionStrategies hand_T9922 BTN = Inr (fold_hand ''Fold'')"
  by code_simp

section \<open>Properties of the single-position classifier\<close>

text \<open>
  C9 at a concrete input.  The hand 9-6-3-2-2 has four distinct values, and both special
  shapes ask for five, so the special blocker rule is passed over; the hand is raised by
  the general Draw 2 rule, under the label of the benchmark 752.
\<close>

theorem evaluateUTGHand_96322:
  "evaluateUTGHand hand_96322 = raise ''Draw 2 (752+)''
   \<and> \<not> has632Pattern (sortedValues hand_96322) (uniqueValues (sortedValues hand_96322))
   \<and> specialCheck (sortedValues hand_96322) (uniqueValues (sortedValues hand_96322)) = None"
  by code_simp

section \<open>Properties of shape detection\<close>

lemma length_arrayFromSet: "length (arrayFromSet xs) = card (set xs)"
  by (simp add: arrayFromSet_def length_remdups_card_conv)

lemma set_arrayFromSet: "set (arrayFromSet xs) = set xs"
  by (simp add: arrayFromSet_def)

lemma distinct_arrayFromSet: "distinct (arrayFromSet xs)"
  by (simp add: arrayFromSet_def)


lemma isStraight_short: "length vals < 5 \<Longrightarrow> \<not> isStraight vals"
  by (simp add: isStraight_def)

lemma isStraight_few_distinct: "card (set vals) < 5 \<Longrightarrow> \<not> isStraight vals"
  by (simp add: isStraight_def Let_def length_arrayFromSet)

lemma fourBestCards_length: "fourBestCards uniq = Some fb \<Longrightarrow> length fb = 4"
  by (auto simp: fourBestCards_def split: if_splits)

lemma length_uniqueValues: "length (uniqueValues vals) = card (set vals)"
  by (simp add: uniqueValues_def length_arrayFromSet)


lemma map_of_fold_counts:
  "map_of (fold countValue vals acc) k
   = (if k \<in> set vals then Some ((case map_of acc k of None \<Rightarrow> 0 | Some c \<Rightarrow> c) + count_list vals k)
      else map_of acc k)"
  by (induction vals arbitrary: acc) (auto simp: countValue_def update_conv')


lemma map_of_valueCounts:
  "map_of (valueCounts vals) k = (if k \<in> set vals then Some (count_list vals k) else None)"
  by (simp add: valueCounts_def map_of_fold_counts)


lemma count_list_distinct: "distinct xs \<Longrightarrow> count_list xs x \<le> 1"
  by (induction xs) auto



lemma sort_five_values:
  assumes "length xs = 5" and "set xs = {2, 3, 4, 5, 14 :: int}"
  shows "sort xs = [2, 3, 4, 5, 14]"
proof -
  have "card (set xs) = length xs" using assms by simp
  then have "distinct xs" by (rule card_distinct)
  then have "distinct (sort xs)" by simp
  moreover have "sorted (sort xs)" by simp
  moreover have "set (sort xs) = set [2, 3, 4, 5, 14 :: int]" using assms by simp
  moreover have "sorted [2, 3, 4, 5, 14 :: int]" "distinct [2, 3, 4, 5, 14 :: int]" by simp_all
  ultimately show ?thesis by (metis sorted_distinct_set_unique)
qed

text \<open>
  C10.  \<open>isStraight\<close> answers \<open>false\<close> for every list with fewer than five distinct
  values.  The Draw 1 candidate always has four entries, so the test \<open>!isStraight(..)\<close>
  put on it never rejects a hand, four consecutive values included.
\<close>

theorem isStraight_draw1_guard_vacuous:
  "(card (set vals) < 5 \<longrightarrow> \<not> isStraight vals)
   \<and> (fourBestCards uniq = Some fb \<longrightarrow> \<not> isStraight fb)"
  using isStraight_few_distinct [of vals] fourBestCards_length [of uniq fb] isStraight_short [of fb]
  by auto

theorem isStraight_draw1_guard_vacuous_witness:
  "card (set [2, 3, 4, 5 :: int]) < 5 \<and> \<not> isStraight [2, 3, 4, 5]
   \<and> fourBestCards [2, 3, 4, 5, 9] = Some [2, 3, 4, 5]"
  using isStraight_draw1_guard_vacuous [of "[2, 3, 4, 5]" "[2, 3, 4, 5, 9]" "[2, 3, 4, 5]"]
  by (simp add: fourBestCards_def)

section \<open>The wheel\<close>

lemma wheel_values:
  "hasWheel [2, 3, 4, 5, 14]" "\<not> hasPair [2, 3, 4, 5, 14]" "\<not> isStraight [2, 3, 4, 5, 14]"
  "uniqueValues [2, 3, 4, 5, 14] = [2, 3, 4, 5, 14]"
  "trapCheck [2, 3, 4, 5, 14] = None"
  "draw1Check [2, 3, 4, 5, 14] = Some (raise ''Draw 1 (2345)'')"
  by code_simp+

lemma draw1Evaluation_category:
  "draw1Evaluation strategy uniq = Some r \<Longrightarrow> take 4 (category r) = ''Draw''"
  by (auto simp: draw1Evaluation_def Let_def raise_def fold_hand_def
      split: option.splits if_splits)

lemma draw2Patterns_category:
  "draw2Patterns patterns draws = Some r \<Longrightarrow> take 4 (category r) = ''Draw''"
  by (induction draws) (auto simp: raise_def split: option.splits)

lemma draw2Evaluation_category:
  "draw2Evaluation strategy vals uniq = Some r \<Longrightarrow> take 4 (category r) = ''Draw''"
  by (auto simp: draw2Evaluation_def split: if_splits dest: draw2Patterns_category)

lemma classify_without_pat:
  assumes "patEvaluation strategy hand = None"
  shows "take 4 (category (classify strategy hand)) \<noteq> ''Pat ''"
proof -
  let ?vals = "sortedValues hand"
  let ?uniq = "uniqueValues ?vals"
  show ?thesis
  proof (cases "draw1Evaluation strategy ?uniq")
    case (Some r)
    with assms have "classify strategy hand = r" by (simp add: classify_def)
    with Some show ?thesis using draw1Evaluation_category by fastforce
  next
    case None
    show ?thesis
    proof (cases "draw2Evaluation strategy ?vals ?uniq")
      case (Some r)
      with assms None have "classify strategy hand = r" by (simp add: classify_def)
      with Some show ?thesis using draw2Evaluation_category by fastforce
    next
      case n2: None
      with assms None have "classify strategy hand = fold_hand ''Fold''" by (simp add: classify_def)
      then show ?thesis by (simp add: fold_hand_def)
    qed
  qed
qed

text \<open>
  C4.  A five-card hand whose values are 2, 3, 4, 5 and 14, in any order and suits, has
  no pair and no straight under \<open>isStraight\<close>, yet the pat rule of neither variant fires
  for it: the single-position classifier labels it a Draw 1, and in the multi-position
  classifier no strategy, whatever its pat patterns, yields a \<open>Pat\<close> category.
\<close>

theorem wheel_is_never_pat:
  assumes "length hand = 5" and "set (map card_value hand) = {2, 3, 4, 5, 14}"
  shows "\<not> hasPair (sortedValues hand) \<and> \<not> isStraight (sortedValues hand)
         \<and> patCheck hand = None
         \<and> evaluateUTGHand hand = raise ''Draw 1 (2345)''
         \<and> patEvaluation strategy hand = None
         \<and> take 4 (category (classify strategy hand)) \<noteq> ''Pat ''
         \<and> (evaluateHandForPosition n strategies hand pos = Inr r
              \<longrightarrow> take 4 (category r) \<noteq> ''Pat '')"
proof -
  have vals: "sortedValues hand = [2, 3, 4, 5, 14]"
    unfolding sortedValues_def using assms by (intro sort_five_values) simp_all
  have pat1: "patCheck hand = None"
    by (simp add: patCheck_def vals wheel_values)
  have pat2: "\<And>s. patEvaluation s hand = None"
    by (simp add: patEvaluation_def vals wheel_values)
  have single: "evaluateUTGHand hand = raise ''Draw 1 (2345)''"
    by (simp add: evaluateUTGHand_def pat1 vals wheel_values)
  have multi: "evaluateHandForPosition n strategies hand pos = Inr r
      \<longrightarrow> take 4 (category r) \<noteq> ''Pat ''"
    using classify_without_pat [OF pat2]
    by (auto simp: evaluateHandForPosition_def split: resolution.splits)
  from vals pat1 pat2 single multi classify_without_pat [OF pat2] show ?thesis
    by (simp add: wheel_values)
qed

theorem wheel_is_never_pat_witness:
  "length hand_A5432 = 5 \<and> set (map card_value hand_A5432) = {2, 3, 4, 5, 14}
   \<and> evaluateHandForPosition 6 positionStrategies hand_A5432 UTG = Inr (raise ''Draw 1 (2345)'')
   \<and> take 4 (category (raise ''Draw 1 (2345)'')) \<noteq> ''Pat ''
   \<and> evaluateUTGHand hand_A5432 = raise ''Draw 1 (2345)''"
proof -
  have h1: "length hand_A5432 = 5" by (simp add: hand_A5432_def)
  have h2: "set (map card_value hand_A5432) = {2, 3, 4, 5, 14}"
    by (auto simp: hand_A5432_def dealt_def)
  have h3: "evaluateHandForPosition 6 positionStrategies hand_A5432 UTG = Inr (raise ''Draw 1 (2345)'')"
    by code_simp
  from wheel_is_never_pat [OF h1 h2, where n = 6 and strategies = positionStrategies and pos = UTG
      and r = "raise ''Draw 1 (2345)''"] h1 h2 h3
  show ?thesis by simp
qed

section \<open>The trap hand\<close>















section \<open>Termination of the resolver\<close>












section \<open>Inheritance is monotone\<close>

lemma find_append_Some: "find P xs = Some x \<Longrightarrow> find P (xs @ ys) = Some x"
  by (induction xs) (auto split: if_splits)

lemma find_append_defined: "find P xs \<noteq> None \<Longrightarrow> find P (xs @ ys) \<noteq> None"
  using find_append_Some by fastforce

lemma patEvaluation_playable: "patEvaluation s hand = Some r \<Longrightarrow> isPlayable r"
  by (auto simp: patEvaluation_def Let_def raise_def split: if_splits option.splits)

lemma draw2Patterns_playable: "draw2Patterns patterns draws = Some r \<Longrightarrow> isPlayable r"
  by (induction draws) (auto simp: raise_def split: option.splits)

lemma draw2Evaluation_playable: "draw2Evaluation s vals uniq = Some r \<Longrightarrow> isPlayable r"
  by (auto simp: draw2Evaluation_def split: if_splits dest: draw2Patterns_playable)

lemma draw1Evaluation_cases:
  assumes "draw1Evaluation s uniq = Some r"
  obtains "isPlayable r"
    | fb where "fourBestCards uniq = Some fb" "draw1Excluded (excludesOf (draw1Hands s)) (joinValues [] fb)"
  using assms
  by (auto simp: draw1Evaluation_def Let_def raise_def split: option.splits if_splits)

lemma draw1Excluded_append:
  "draw1Excluded (xs @ ys) h \<longleftrightarrow> draw1Excluded xs h \<or> draw1Excluded ys h"
  by (auto simp: draw1Excluded_def)

lemma patEvaluation_mono:
  assumes "patEvaluation p hand \<noteq> None"
    and "includesOf (patHands c) = includesOf (patHands p) @ extra"
  shows "patEvaluation c hand \<noteq> None"
  using assms find_append_defined [of "\<lambda>pattern. interpretBetterHand pattern (sortedValues hand)"
      "includesOf (patHands p)" extra]
  by (auto simp: patEvaluation_def Let_def split: if_splits option.splits)

lemma draw1Evaluation_mono:
  assumes "draw1Evaluation p uniq = Some r" and "isPlayable r"
    and "includesOf (draw1Hands c) = includesOf (draw1Hands p) @ extra"
    and "excludesOf (draw1Hands c) = excludesOf (draw1Hands p) @ own"
    and "\<And>fb. fourBestCards uniq = Some fb \<Longrightarrow> \<not> draw1Excluded own (joinValues [] fb)"
  shows "\<exists>r'. draw1Evaluation c uniq = Some r' \<and> isPlayable r'"
proof -
  from assms(1) obtain fb where fb: "fourBestCards uniq = Some fb" and st: "\<not> isStraight fb"
    by (auto simp: draw1Evaluation_def split: option.splits if_splits)
  let ?h = "joinValues [] fb"
  let ?P = "\<lambda>pattern. pattern = ''all'' \<or> interpretBetterHand pattern fb"
  have nex: "\<not> draw1Excluded (excludesOf (draw1Hands p)) ?h"
    using assms(1,2) fb st by (auto simp: draw1Evaluation_def Let_def fold_hand_def)
  then have nexc: "\<not> draw1Excluded (excludesOf (draw1Hands c)) ?h"
    using assms(4,5) fb by (simp add: draw1Excluded_append)
  have "find ?P (includesOf (draw1Hands p)) \<noteq> None \<or> ?h \<in> set (includesOf (draw1Hands p))"
    using assms(1) fb st nex by (auto simp: draw1Evaluation_def Let_def split: option.splits if_splits)
  then have "find ?P (includesOf (draw1Hands c)) \<noteq> None \<or> ?h \<in> set (includesOf (draw1Hands c))"
    using assms(3) find_append_defined [of ?P "includesOf (draw1Hands p)" extra] by auto
  then show ?thesis
    using fb st nexc by (auto simp: draw1Evaluation_def Let_def raise_def split: option.splits)
qed

lemma draw1Evaluation_not_folded:
  assumes "draw1Evaluation p uniq = None" and "draw1Evaluation c uniq = Some r"
    and "excludesOf (draw1Hands c) = excludesOf (draw1Hands p) @ own"
    and "\<And>fb. fourBestCards uniq = Some fb \<Longrightarrow> \<not> draw1Excluded own (joinValues [] fb)"
  shows "isPlayable r"
proof (rule draw1Evaluation_cases [OF assms(2)])
  fix fb
  assume fb: "fourBestCards uniq = Some fb"
    and ex: "draw1Excluded (excludesOf (draw1Hands c)) (joinValues [] fb)"
  from fb have "\<not> isStraight fb"
    using fourBestCards_length isStraight_short by fastforce
  with assms(1) fb have "\<not> draw1Excluded (excludesOf (draw1Hands p)) (joinValues [] fb)"
    by (auto simp: draw1Evaluation_def Let_def)
  with ex assms(3,4) fb show "isPlayable r" by (simp add: draw1Excluded_append)
qed

lemma draw2Patterns_mono:
  "draw2Patterns xs draws \<noteq> None \<Longrightarrow> draw2Patterns (xs @ ys) draws \<noteq> None"
proof (induction draws)
  case Nil
  then show ?case by simp
next
  case (Cons d draws)
  show ?case
  proof (cases "find (\<lambda>pattern. interpretBetterHand pattern d) xs")
    case None
    with Cons show ?thesis by (simp split: option.splits)
  next
    case (Some x)
    then have "find (\<lambda>pattern. interpretBetterHand pattern d) (xs @ ys) = Some x"
      by (rule find_append_Some)
    then show ?thesis by simp
  qed
qed

lemma draw2Evaluation_mono:
  assumes "draw2Evaluation p vals uniq \<noteq> None"
    and "includesOf (draw2Hands c) = includesOf (draw2Hands p) @ extra"
  shows "draw2Evaluation c vals uniq \<noteq> None"
  using assms draw2Patterns_mono [of "includesOf (draw2Hands p)" "threeCardDraws uniq" extra]
  by (auto simp: draw2Evaluation_def split: if_splits)

lemma classify_mono:
  assumes play: "isPlayable (classify p hand)"
    and pat: "includesOf (patHands c) = includesOf (patHands p) @ e1"
    and d1i: "includesOf (draw1Hands c) = includesOf (draw1Hands p) @ e2"
    and d1e: "excludesOf (draw1Hands c) = excludesOf (draw1Hands p) @ own"
    and d2i: "includesOf (draw2Hands c) = includesOf (draw2Hands p) @ e3"
    and own: "\<And>fb. fourBestCards (uniqueValues (sortedValues hand)) = Some fb
                \<Longrightarrow> \<not> draw1Excluded own (joinValues [] fb)"
  shows "isPlayable (classify c hand)"
proof -
  let ?vals = "sortedValues hand"
  let ?uniq = "uniqueValues ?vals"
  show ?thesis
  proof (cases "patEvaluation c hand")
    case (Some r)
    then show ?thesis using patEvaluation_playable by (simp add: classify_def)
  next
    case cpat: None
    then have ppat: "patEvaluation p hand = None"
      using patEvaluation_mono [OF _ pat] by blast
    show ?thesis
    proof (cases "draw1Evaluation p ?uniq")
      case (Some r)
      with play ppat have "isPlayable r" by (simp add: classify_def)
      with Some obtain r' where "draw1Evaluation c ?uniq = Some r'" "isPlayable r'"
        using draw1Evaluation_mono [OF _ _ d1i d1e own] by blast
      with cpat show ?thesis by (simp add: classify_def)
    next
      case pd1: None
      with play ppat have pd2: "draw2Evaluation p ?vals ?uniq \<noteq> None"
        by (auto simp: classify_def Let_def fold_hand_def split: option.splits)
      show ?thesis
      proof (cases "draw1Evaluation c ?uniq")
        case (Some r)
        then have "isPlayable r"
          using draw1Evaluation_not_folded [OF pd1 _ d1e own] by blast
        with Some cpat show ?thesis by (simp add: classify_def)
      next
        case None
        from pd2 obtain r where "draw2Evaluation c ?vals ?uniq = Some r"
          using draw2Evaluation_mono [OF _ d2i] by blast
        with None cpat show ?thesis
          using draw2Evaluation_playable by (simp add: classify_def)
      qed
    qed
  qed
qed

text \<open>
  C8.  Let the strategy found for position C inherit from position P.  If the
  classification of a hand at P returns playable, then the classification at C, which
  takes one more nested call to resolve, returns playable as well, unless the hand is
  excluded by C's own declaration: the Draw 1 exclusion test succeeds on the excludes
  that C itself lists.
\<close>

theorem inheritance_monotone:
  assumes "lookupStrategy strategies C = Some child" and "inheritsFrom child = Some P"
    and "evaluateHandForPosition n strategies hand P = Inr r" and "isPlayable r"
    and "\<forall>fb. fourBestCards (uniqueValues (sortedValues hand)) = Some fb
           \<longrightarrow> \<not> draw1Excluded (excludesOf (draw1Hands child)) (joinValues [] fb)"
  shows "\<exists>r'. evaluateHandForPosition (Suc n) strategies hand C = Inr r' \<and> isPlayable r'"
proof -
  from assms(3) obtain p where p: "getFullStrategy n strategies P = Resolved p"
    and r: "r = classify p hand"
    by (auto simp: evaluateHandForPosition_def split: resolution.splits)
  define c where "c = child
     \<lparr>patHands := mergeRange (patHands p) (convertLegacyHandRange (patHands child)),
      draw1Hands := mergeRange (draw1Hands p) (convertLegacyHandRange (draw1Hands child)),
      draw2Hands := mergeRange (draw2Hands p) (convertLegacyHandRange (draw2Hands child)),
      draw3Hands := mergeRange (draw3Hands p) (convertLegacyHandRange (draw3Hands child)),
      draw4Hands := mergeRange (draw4Hands p) (convertLegacyHandRange (draw4Hands child))\<rparr>"
  have c: "getFullStrategy (Suc n) strategies C = Resolved c"
    using assms(1,2) p by (simp add: c_def)
  have "isPlayable (classify c hand)"
  proof (rule classify_mono)
    show "isPlayable (classify p hand)" using assms(4) r by simp
    show "includesOf (patHands c) = includesOf (patHands p) @ includesOf (patHands child)"
      by (simp add: c_def mergeRange_def convertLegacyHandRange_def)
    show "includesOf (draw1Hands c) = includesOf (draw1Hands p) @ includesOf (draw1Hands child)"
      by (simp add: c_def mergeRange_def convertLegacyHandRange_def)
    show "excludesOf (draw1Hands c) = excludesOf (draw1Hands p) @ excludesOf (draw1Hands child)"
      by (simp add: c_def mergeRange_def convertLegacyHandRange_def)
    show "includesOf (draw2Hands c) = includesOf (draw2Hands p) @ includesOf (draw2Hands child)"
      by (simp add: c_def mergeRange_def convertLegacyHandRange_def)
    show "\<not> draw1Excluded (excludesOf (draw1Hands child)) (joinValues [] fb)"
      if "fourBestCards (uniqueValues (sortedValues hand)) = Some fb" for fb
      using assms(5) that by blast
  qed
  with c show ?thesis by (simp add: evaluateHandForPosition_def)
qed

theorem inheritance_monotone_witness:
  "lookupStrategy positionStrategies HJ = Some (positionStrategies ! 1)
   \<and> inheritsFrom (positionStrategies ! 1) = Some UTG
   \<and> evaluateHandForPosition 1 positionStrategies hand_86532 UTG = Inr (raise ''Pat 8-high'')
   \<and> isPlayable (raise ''Pat 8-high'')
   \<and> (\<exists>r'. evaluateHandForPosition 2 positionStrategies hand_86532 HJ = Inr r' \<and> isPlayable r')"
proof -
  have h1: "lookupStrategy positionStrategies HJ = Some (positionStrategies ! 1)" by code_simp
  have h2: "inheritsFrom (positionStrategies ! 1) = Some UTG" by code_simp
  have h3: "evaluateHandForPosition 1 positionStrategies hand_86532 UTG = Inr (raise ''Pat 8-high'')"
    by code_simp
  have h4: "isPlayable (raise ''Pat 8-high'')" by (simp add: raise_def)
  have h5: "\<forall>fb. fourBestCards (uniqueValues (sortedValues hand_86532)) = Some fb
           \<longrightarrow> \<not> draw1Excluded (excludesOf (draw1Hands (positionStrategies ! 1))) (joinValues [] fb)"
    by (simp add: positionStrategies_def draw1Excluded_def)
  from inheritance_monotone [OF h1 h2 h3 h4 h5] h1 h2 h3 h4 show ?thesis
    by (simp only: numeral_2_eq_2 One_nat_def simp_thms)
qed

section \<open>Branches that are never taken\<close>

text \<open>
  In the single-position classifier both special shapes require five distinct values, and
  a five-card hand with five distinct values holds no pair, so the special blocker raise
  is returned for no five-card hand.
\<close>

lemma specialCheck_never_raises:
  assumes "length vals = 5"
  shows "specialCheck vals (uniqueValues vals) \<noteq> Some (raise ''Draw 2 (Special Blocker)'')"
proof (cases "length (uniqueValues vals) = 5")
  case False
  then show ?thesis by (simp add: specialCheck_def has632Pattern_def has762Pattern_def)
next
  case True
  with assms have "card (set vals) = length vals" by (simp add: length_uniqueValues)
  then have "distinct vals" by (rule card_distinct)
  then have "count_list vals 2 \<le> 1" by (rule count_list_distinct)
  then have "\<not> (case map_of (valueCounts vals) 2 of None \<Rightarrow> False | Some c \<Rightarrow> 2 \<le> c)"
    by (simp add: map_of_valueCounts)
  then show ?thesis by (simp add: specialCheck_def raise_def fold_hand_def)
qed

text \<open>
  In the range interpreter every text of four digits and a plus sign is answered by the
  four-digit benchmark branch, whatever digits it holds; the pair requirement written
  after that branch is never evaluated.
\<close>

lemma four_digit_pattern_not_threshold:
  assumes "matchesDigitsPlus 4 pattern"
  shows "\<not> matchesDigitsSPlus pattern"
proof
  assume s: "matchesDigitsSPlus pattern"
  from assms have len: "length pattern = 5" and dig: "list_all isDigit (take 4 pattern)"
    by (simp_all add: matchesDigitsPlus_def)
  from s len have "drop 3 pattern = ''s+''" by (simp add: matchesDigitsSPlus_def)
  moreover have "hd (drop 3 pattern) = pattern ! 3"
    using len by (simp add: hd_drop_conv_nth)
  ultimately have "pattern ! 3 = CHR ''s''" by simp
  moreover from dig len have "isDigit (pattern ! 3)"
    by (simp add: list_all_length)
  ultimately show False by (simp add: isDigit_def)
qed

lemma four_digit_pattern_is_benchmark:
  assumes "matchesDigitsPlus 4 pattern"
  shows "interpretBetterHand pattern testHand =
     (case benchmarkOf pattern of
        None \<Rightarrow> False
      | Some benchmark \<Rightarrow> atMostZero (compareLowballHands testHand benchmark))"
  using assms four_digit_pattern_not_threshold [OF assms]
  by (simp add: interpretBetterHand_def)

end
